theory Spec2Isabelle
  imports Complex_Main "HOL-Library.Sublist"
begin

section \<open>Python strings\<close>

text \<open>
  A Python \<open>str\<close> is modelled as a \<open>string\<close>; each \<open>char\<close> stands for one code point
  below 256. \<open>whitespace\<close> lists the code points below 256 on which \<open>str.split()\<close> and
  \<open>str.strip()\<close> act: TAB, LF, VT, FF, CR, FS, GS, RS, US, SPACE, NEL and NBSP.
\<close>

definition whitespace :: "char list" where
  "whitespace = [CHR 0x09, CHR 0x0A, CHR 0x0B, CHR 0x0C, CHR 0x0D, CHR 0x1C, CHR 0x1D,
                 CHR 0x1E, CHR 0x1F, CHR 0x20, CHR 0x85, CHR 0xA0]"

definition isspace :: "char \<Rightarrow> bool" where
  "isspace c = (c \<in> set whitespace)"

text \<open>\<open>text.split()\<close>: the maximal runs of non-whitespace characters, in order.\<close>

fun split_acc :: "string \<Rightarrow> string \<Rightarrow> string list" where
  "split_acc w [] = (if w = [] then [] else [w])"
| "split_acc w (c # cs) =
     (if isspace c then (if w = [] then split_acc [] cs else w # split_acc [] cs)
      else split_acc (w @ [c]) cs)"

definition str_split :: "string \<Rightarrow> string list" where
  "str_split text = split_acc [] text"

text \<open>\<open>sep.join(words)\<close>.\<close>

fun join :: "string \<Rightarrow> string list \<Rightarrow> string" where
  "join sep [] = []"
| "join sep [w] = w"
| "join sep (w # v # ws) = w @ sep @ join sep (v # ws)"

text \<open>\<open>text.find(sub)\<close>: the lowest index at which \<open>sub\<close> occurs in \<open>text\<close>, or \<open>-1\<close>.\<close>

fun find_from :: "nat \<Rightarrow> string \<Rightarrow> string \<Rightarrow> int" where
  "find_from i sub [] = (if sub = [] then int i else - 1)"
| "find_from i sub (c # cs) =
     (if take (length sub) (c # cs) = sub then int i else find_from (Suc i) sub cs)"

definition str_find :: "string \<Rightarrow> string \<Rightarrow> int" where
  "str_find text sub = find_from 0 sub text"

text \<open>\<open>xs[k:]\<close> for a Python integer \<open>k\<close>: a negative \<open>k\<close> counts from the end.\<close>

definition slice_from :: "'a list \<Rightarrow> int \<Rightarrow> 'a list" where
  "slice_from xs k =
     (if k < 0 then drop (nat (int (length xs) + k)) xs else drop (nat k) xs)"

section \<open>The chunker: \<open>DocumentService.chunk_text\<close>\<close>

record page_info =
  pg_page_number :: int
  pg_text :: string
  char_start :: int
  char_end :: int

record chunk =
  index :: nat
  content :: string
  start_char :: int
  end_char :: int
  page_number :: int

type_synonym vector = "real list"

datatype exn =
  PdfUnavailable
  | ExtractionError
  | FileNotFound
  | DecodeError
  | IndexError
  | EncodeError
  | ValueError
  | NameError
  | AttributeError

text \<open>
  The attributes of a \<open>DocumentService\<close> that the modelled methods read. The embedding
  model is a collaborator from outside the repository: \<open>encode\<close> maps a batch of texts to a
  batch of vectors or raises. \<open>None\<close> is the service without a model.
\<close>

record service =
  chunk_size :: int
  chunk_overlap :: int
  embedding_model :: "(string list \<Rightarrow> exn + vector list) option"

text \<open>The page loop of lines 99--103 and 128--132: first page whose interval holds the offset.\<close>

fun find_page :: "page_info list \<Rightarrow> int \<Rightarrow> int" where
  "find_page [] chunk_start = 1"
| "find_page (p # ps) chunk_start =
     (if chunk_start \<ge> char_start p \<and> chunk_start \<le> char_end p then pg_page_number p
      else find_page ps chunk_start)"

definition make_chunk :: "string \<Rightarrow> page_info list \<Rightarrow> nat \<Rightarrow> string list \<Rightarrow> chunk" where
  "make_chunk text pages_info chunk_index current_chunk =
     (let chunk_text = join '' '' current_chunk;
          chunk_start = str_find text chunk_text;
          chunk_end = chunk_start + int (length chunk_text)
      in \<lparr>index = chunk_index, content = chunk_text, start_char = chunk_start,
          end_char = chunk_end, page_number = find_page pages_info chunk_start\<rparr>)"

text \<open>
  Line 114. Python parses \<open>-self.chunk_overlap//10\<close> as \<open>(-self.chunk_overlap)//10\<close>, and
  \<open>//\<close> rounds towards minus infinity, as \<open>div\<close> on \<open>int\<close> does.
\<close>

definition overlap_words :: "service \<Rightarrow> string list \<Rightarrow> string list" where
  "overlap_words svc current_chunk =
     (if int (length current_chunk) > chunk_overlap svc div 10
      then slice_from current_chunk ((- chunk_overlap svc) div 10) else [])"

definition words_length :: "string list \<Rightarrow> int" where
  "words_length ws = (\<Sum>w\<leftarrow>ws. int (length w) + 1)"

text \<open>
  The \<open>for word in words\<close> loop, with the loop variables \<open>chunks\<close>, \<open>current_chunk\<close>,
  \<open>current_length\<close> and \<open>chunk_index\<close> passed along; at the end of the words the final
  chunk of lines 123--140 is added.
\<close>

fun chunk_loop ::
  "service \<Rightarrow> string \<Rightarrow> page_info list \<Rightarrow> chunk list \<Rightarrow> string list \<Rightarrow> int \<Rightarrow> nat \<Rightarrow>
   string list \<Rightarrow> chunk list" where
  "chunk_loop svc text pages_info chunks current_chunk current_length chunk_index [] =
     (if current_chunk \<noteq> []
      then chunks @ [make_chunk text pages_info chunk_index current_chunk] else chunks)"
| "chunk_loop svc text pages_info chunks current_chunk current_length chunk_index (word # words) =
     (if current_length + int (length word) + 1 > chunk_size svc \<and> current_chunk \<noteq> []
      then
        (let new_chunk = overlap_words svc current_chunk @ [word]
         in chunk_loop svc text pages_info
              (chunks @ [make_chunk text pages_info chunk_index current_chunk])
              new_chunk (words_length new_chunk) (chunk_index + 1) words)
      else
        chunk_loop svc text pages_info chunks (current_chunk @ [word])
          (current_length + int (length word) + 1) chunk_index words)"

definition chunk_text :: "service \<Rightarrow> string \<Rightarrow> page_info list \<Rightarrow> chunk list" where
  "chunk_text svc text pages_info = chunk_loop svc text pages_info [] [] 0 0 (str_split text)"

text \<open>The service as \<open>__init__\<close> sets it up (lines 33, 34), here without an embedding model.\<close>

definition default_service :: service where
  "default_service = \<lparr>chunk_size = 1000, chunk_overlap = 200, embedding_model = None\<rparr>"

section \<open>The chunking algorithm in the words of the specification\<close>

text \<open>\<open>trailing k xs\<close>: the last \<open>k\<close> elements of \<open>xs\<close> (all of them when there are fewer).\<close>

definition trailing :: "nat \<Rightarrow> 'a list \<Rightarrow> 'a list" where
  "trailing k xs = drop (length xs - k) xs"

text \<open>
  The windows of the specification, section 4.2: tokens are accumulated into a window \<open>w\<close>;
  when the window with the next token \<open>t\<close> would exceed \<open>sz\<close>, the window is closed and the
  next one starts from \<open>seed w\<close> followed by \<open>t\<close>; the last window is emitted unless it is
  empty. The size of a window counts each token with one separator, which is the
  accounting of \<open>current_length\<close>.
\<close>

fun spec_windows ::
  "int \<Rightarrow> (string list \<Rightarrow> string list) \<Rightarrow> string list \<Rightarrow> string list \<Rightarrow> string list list" where
  "spec_windows sz seed w [] = (if w = [] then [] else [w])"
| "spec_windows sz seed w (t # ts) =
     (if w \<noteq> [] \<and> words_length (w @ [t]) > sz
      then w # spec_windows sz seed (seed w @ [t]) ts
      else spec_windows sz seed (w @ [t]) ts)"

text \<open>The seed as the specification words it: the trailing \<open>overlap / 10\<close> tokens.\<close>

definition claimed_seed :: "int \<Rightarrow> string list \<Rightarrow> string list" where
  "claimed_seed overlap w = trailing (nat (overlap div 10)) w"

text \<open>The seed with the guard of line 114: nothing unless the window holds more tokens.\<close>

definition guarded_seed :: "int \<Rightarrow> string list \<Rightarrow> string list" where
  "guarded_seed overlap w =
     (if length w > nat (overlap div 10) then trailing (nat (overlap div 10)) w else [])"

text \<open>Twenty-one tokens of 48 characters: the first twenty fill a window of the default service.\<close>

definition long_text :: string where
  "long_text = concat (replicate 21 (replicate 48 CHR ''a'' @ '' ''))"

text \<open>A service with windows of two four-letter words and a seed of one word.\<close>

definition small_service :: service where
  "small_service = \<lparr>chunk_size = 10, chunk_overlap = 10, embedding_model = None\<rparr>"

text \<open>The text of two pages, \<open>a\<close> and \<open>b\<close>, as the extractor joins them: a line feed after each.\<close>

definition two_page_text :: string where
  "two_page_text = ''a'' @ [CHR 0x0A] @ ''b'' @ [CHR 0x0A]"

section \<open>The embedder: \<open>DocumentService.generate_embeddings\<close>\<close>

text \<open>
  Lines 144--153. Without a model every text gets the empty vector; with a model the whole
  batch goes to one \<open>encode\<close> call, and if that call raises every text gets the empty vector.
\<close>

definition generate_embeddings :: "service \<Rightarrow> string list \<Rightarrow> vector list" where
  "generate_embeddings svc texts =
     (case embedding_model svc of
        None \<Rightarrow> map (\<lambda>_. []) texts
      | Some encode \<Rightarrow>
          (case encode texts of
             Inr embeddings \<Rightarrow> embeddings
           | Inl e \<Rightarrow> map (\<lambda>_. []) texts))"

text \<open>
  An embedding model built from a function on single texts: the batch call embeds the
  texts in order and raises if one of them cannot be embedded.
\<close>

definition batch_encoder :: "(string \<Rightarrow> vector option) \<Rightarrow> string list \<Rightarrow> exn + vector list" where
  "batch_encoder f texts =
     (if list_all (\<lambda>t. f t \<noteq> None) texts then Inr (map (\<lambda>t. the (f t)) texts)
      else Inl EncodeError)"

text \<open>
  The batch the specification asks for in section 4.3: the text that cannot be embedded
  gets the empty vector, every other text keeps its own vector.
\<close>

definition embed_each :: "(string \<Rightarrow> vector option) \<Rightarrow> string list \<Rightarrow> vector list" where
  "embed_each f texts = map (\<lambda>t. case f t of None \<Rightarrow> [] | Some v \<Rightarrow> v) texts"

definition picky :: "string \<Rightarrow> vector option" where
  "picky t = (if t = ''bad'' then None else Some [1])"

definition picky_service :: service where
  "picky_service =
     \<lparr>chunk_size = 1000, chunk_overlap = 200, embedding_model = Some (batch_encoder picky)\<rparr>"

section \<open>The extractor: \<open>DocumentService.extract_text_from_pdf\<close>\<close>

text \<open>
  What lies outside the repository is a parameter of the model. A page of a parsed PDF
  either yields its text or makes \<open>page.extract_text()\<close> raise. A file on disk is seen
  through the two ways the service reads it: decoded as UTF-8 text (\<open>None\<close> when decoding
  fails) and parsed by \<open>PyPDF2.PdfReader\<close> (\<open>None\<close> when parsing fails). The environment
  holds the module flags \<open>PDF_AVAILABLE\<close> and \<open>EMBEDDINGS_AVAILABLE\<close>, the files by path and
  the identifiers that \<open>uuid.uuid4()\<close> hands out, by number of the call.
\<close>

datatype pdf_page = Page string | Unreadable

record disk_file =
  as_text :: "string option"
  as_pdf :: "pdf_page list option"

record env =
  pdf_available :: bool
  embeddings_available :: bool
  files :: "string \<Rightarrow> disk_file option"
  uuid4 :: "nat \<Rightarrow> string"

text \<open>The page loop of lines 68--76; an exception of a page leaves the loop.\<close>

fun extract_pages ::
  "pdf_page list \<Rightarrow> nat \<Rightarrow> string \<Rightarrow> page_info list \<Rightarrow> exn + string \<times> page_info list" where
  "extract_pages [] page_num text_content pages_info = Inr (text_content, pages_info)"
| "extract_pages (Unreadable # pages) page_num text_content pages_info = Inl ExtractionError"
| "extract_pages (Page page_text # pages) page_num text_content pages_info =
     (let text_content' = text_content @ page_text @ [CHR 0x0A]
      in extract_pages pages (page_num + 1) text_content'
           (pages_info @
            [\<lparr>pg_page_number = int page_num + 1, pg_text = page_text,
              char_start = int (length text_content') - int (length page_text) - 1,
              char_end = int (length text_content') - 1\<rparr>]))"

text \<open>
  Lines 57--80: the guard on \<open>PDF_AVAILABLE\<close>, then one \<open>try\<close> around opening, parsing and
  the page loop, whose handler raises the extraction error for whatever went wrong.
\<close>

definition extract_text_from_pdf :: "env \<Rightarrow> string \<Rightarrow> exn + string \<times> page_info list" where
  "extract_text_from_pdf e path =
     (if \<not> pdf_available e then Inl PdfUnavailable
      else case files e path of
             None \<Rightarrow> Inl ExtractionError
           | Some f \<Rightarrow>
               (case as_pdf f of
                  None \<Rightarrow> Inl ExtractionError
                | Some pages \<Rightarrow> extract_pages pages 0 [] []))"

text \<open>
  The extraction the specification describes in section 4.1: a page that cannot be read
  counts as a page without text, and the text of the document is the text of its pages,
  a line feed after each.
\<close>

fun skip_unreadable :: "pdf_page \<Rightarrow> pdf_page" where
  "skip_unreadable Unreadable = Page []"
| "skip_unreadable (Page t) = Page t"

fun page_texts :: "pdf_page list \<Rightarrow> string" where
  "page_texts [] = []"
| "page_texts (Page t # pages) = t @ [CHR 0x0A] @ page_texts pages"
| "page_texts (Unreadable # pages) = [CHR 0x0A] @ page_texts pages"

definition one_file :: "string \<Rightarrow> disk_file \<Rightarrow> string \<Rightarrow> disk_file option" where
  "one_file path f p = (if p = path then Some f else None)"

definition numbered :: "nat \<Rightarrow> string" where
  "numbered n = replicate (Suc n) CHR ''u''"

text \<open>A PDF whose first page reads \<open>a\<close> and whose second page cannot be read.\<close>

definition torn_pdf_env :: env where
  "torn_pdf_env =
     \<lparr>pdf_available = True, embeddings_available = False,
      files = one_file ''f.pdf'' \<lparr>as_text = None, as_pdf = Some [Page ''a'', Unreadable]\<rparr>,
      uuid4 = numbered\<rparr>"

text \<open>A PDF of two pages without text.\<close>

definition blank_pdf_env :: env where
  "blank_pdf_env =
     \<lparr>pdf_available = True, embeddings_available = False,
      files = one_file ''f.pdf'' \<lparr>as_text = None, as_pdf = Some [Page [], Page []]\<rparr>,
      uuid4 = numbered\<rparr>"

section \<open>The names that the service module can read\<close>

text \<open>
  A global name is looked up when the statement that reads it runs; the lookup raises
  \<open>NameError\<close> when no statement of the module has bound the name. \<open>module_globals\<close> lists
  the names that the module-level statements of \<open>services/document_service.py\<close> bind: the
  imports of lines 5--27, where a \<open>try\<close> and its \<open>except ImportError\<close> branch bind the same
  names, and the class statement of line 29. No other file of the repository assigns to a
  name of this module, and no built-in name is \<open>mongo\<close>.
\<close>

definition module_globals :: "string list" where
  "module_globals =
     [''os'', ''PyPDF2'', ''PDF_AVAILABLE'', ''uuid'', ''List'', ''Dict'', ''Optional'',
      ''Tuple'', ''secure_filename'', ''Document'', ''DocumentChunk'', ''json'',
      ''SentenceTransformer'', ''faiss'', ''np'', ''EMBEDDINGS_AVAILABLE'', ''DocumentService'']"

definition load_global :: "string \<Rightarrow> exn + unit" where
  "load_global name = (if name \<in> set module_globals then Inr () else Inl NameError)"

text \<open>
  \<open>Document\<close> and \<open>DocumentChunk\<close> are the classes that line 15 imports from
  \<open>models/mongo_models.py\<close>. Their attributes are those of the base class \<open>MongoModel\<close>
  (lines 8--48) and their own (lines 248--306 and 308--354). The classes have no metaclass
  and no \<open>__getattr__\<close>, so the lookup of any other name on them, the names that every
  class inherits from \<open>object\<close> apart, raises \<open>AttributeError\<close>.
\<close>

definition mongo_model_attributes :: "string list" where
  "mongo_model_attributes =
     [''collection_name'', ''find_one'', ''find'', ''insert_one'', ''update_one'', ''delete_one'']"

definition document_attributes :: "string list" where
  "document_attributes = mongo_model_attributes @ [''create'', ''update_status'', ''to_dict'']"

definition document_chunk_attributes :: "string list" where
  "document_chunk_attributes =
     mongo_model_attributes @ [''create'', ''find_by_document'', ''update_embedding'', ''to_dict'']"

definition load_attr :: "string list \<Rightarrow> string \<Rightarrow> exn + unit" where
  "load_attr attributes name = (if name \<in> set attributes then Inr () else Inl AttributeError)"

section \<open>The document store and the ingestion: \<open>DocumentService.process_document\<close>\<close>

text \<open>
  The records of the two collections \<open>documents\<close> and \<open>document_chunks\<close>, with the fields that
  \<open>upload_document\<close> (lines 173--186) and \<open>process_document\<close> (lines 230--239) write.
\<close>

record document =
  doc_id :: string
  filename :: string
  original_filename :: string
  file_path :: string
  category :: string
  title :: string
  is_indexed :: bool
  is_active :: bool

record stored_chunk =
  chunk_id :: string
  document_id :: string
  chunk_index :: nat
  chunk_content :: string
  embedding :: vector
  chunk_page_number :: int
  chunk_start_char :: int
  chunk_end_char :: int

record store =
  documents :: "document list"
  document_chunks :: "stored_chunk list"

text \<open>\<open>find_one({'_id': document_id})\<close> on the collection \<open>documents\<close>.\<close>

definition find_one :: "document list \<Rightarrow> string \<Rightarrow> document option" where
  "find_one docs did = find (\<lambda>d. doc_id d = did) docs"

text \<open>
  Lines 198--242. The result is the returned boolean or the exception that leaves the
  method, together with the store as the call leaves it. No statement of the method is
  inside a \<open>try\<close>, so whatever is raised leaves the method.

  Line 200 reads the global \<open>mongo\<close>. Where the name resolves, it is the handle of the
  database, \<open>find_one\<close> answers from the collection \<open>documents\<close>, and lines 201 and 202 return
  \<open>False\<close> for an identifier that is not there. Line 203 reads the attribute \<open>from_dict\<close> of
  the imported class \<open>Document\<close>. The lines 204--242 work on the object that \<open>from_dict\<close>
  would return; they are the parameter \<open>rest\<close>, applied to the record found and the store.
\<close>

definition process_document ::
  "(document \<Rightarrow> store \<Rightarrow> (exn + bool) \<times> store) \<Rightarrow> store \<Rightarrow> string \<Rightarrow> (exn + bool) \<times> store" where
  "process_document rest s did =
     (case load_global ''mongo'' of
        Inl x \<Rightarrow> (Inl x, s)
      | Inr u \<Rightarrow>
          (case find_one (documents s) did of
             None \<Rightarrow> (Inr False, s)
           | Some document_data \<Rightarrow>
               (case load_attr document_attributes ''from_dict'' of
                  Inl x \<Rightarrow> (Inl x, s)
                | Inr v \<Rightarrow> rest document_data s)))"


text \<open>
  A store for the examples: the text document \<open>d1\<close> with two chunks of an earlier run, and
  a chunk of another document.
\<close>

definition old_chunk :: "string \<Rightarrow> string \<Rightarrow> nat \<Rightarrow> stored_chunk" where
  "old_chunk cid did i =
     \<lparr>chunk_id = cid, document_id = did, chunk_index = i, chunk_content = ''old'',
      embedding = [], chunk_page_number = 1, chunk_start_char = 0, chunk_end_char = 3\<rparr>"

definition txt_document :: document where
  "txt_document =
     \<lparr>doc_id = ''d1'', filename = ''d1.txt'', original_filename = ''notes.txt'',
      file_path = ''f.txt'', category = ''policy'', title = ''Notes'',
      is_indexed = False, is_active = True\<rparr>"

definition txt_store :: store where
  "txt_store =
     \<lparr>documents = [txt_document],
      document_chunks = [old_chunk ''c1'' ''d1'' 0, old_chunk ''c2'' ''d2'' 0,
                         old_chunk ''c3'' ''d1'' 1]\<rparr>"

section \<open>The retrieval: \<open>DocumentService.search_documents\<close>\<close>

text \<open>\<open>query.strip()\<close>.\<close>

definition strip :: "string \<Rightarrow> string" where
  "strip s = rev (dropWhile isspace (rev (dropWhile isspace s)))"

text \<open>Lines 342--347: the embedding of the query, \<open>None\<close> without a model or when encoding raises.\<close>

definition embed_query :: "service \<Rightarrow> string \<Rightarrow> vector option" where
  "embed_query svc query =
     (case embedding_model svc of
        None \<Rightarrow> None
      | Some encode \<Rightarrow>
          (case encode [query] of
             Inl x \<Rightarrow> None
           | Inr [] \<Rightarrow> None
           | Inr (v # vs) \<Rightarrow> Some v))"

text \<open>An entry of the list that a search returns (lines 381--386 and 397--402).\<close>

record search_result =
  res_chunk :: stored_chunk
  res_document :: document
  similarity_score :: real
  res_content :: string

text \<open>
  What a search does besides returning: the call of the embedding model on the query and
  the two retrieval modes, the semantic one of lines 357--388 and the lexical one of lines
  390--405.
\<close>

datatype event = EncodeQuery | SemanticSearch | TextSearch

type_synonym answer = "(exn + search_result list) \<times> event list"

text \<open>
  Lines 336--405. The result is the list that the method returns or the exception that
  leaves it, with the events of the call in their order.

  Line 350 reads the attribute \<open>query\<close> of the imported class \<open>DocumentChunk\<close>. The lines
  350--405 work on the value of that attribute, a query interface that is no part of the
  repository; they are the parameter \<open>retrieval\<close>, applied to the store, the embedding of
  the query, the query, the category and the limit.
\<close>

definition search_documents ::
  "(store \<Rightarrow> vector option \<Rightarrow> string \<Rightarrow> string option \<Rightarrow> int \<Rightarrow> answer) \<Rightarrow>
   service \<Rightarrow> store \<Rightarrow> string \<Rightarrow> string option \<Rightarrow> int \<Rightarrow> answer" where
  "search_documents retrieval svc s query cat limit =
     (if strip query = [] then (Inr [], [])
      else
        (let query_embedding = embed_query svc query;
             encoded = (if embedding_model svc = None then [] else [EncodeQuery])
         in case load_attr document_chunk_attributes ''query'' of
              Inl x \<Rightarrow> (Inl x, encoded)
            | Inr u \<Rightarrow>
                (fst (retrieval s query_embedding query cat limit),
                 encoded @ snd (retrieval s query_embedding query cat limit))))"

text \<open>
  The route \<open>/api/documents/search\<close> of \<open>routes/documents.py\<close>, lines 104--121. The arguments
  of the request are strings; \<open>q\<close> and \<open>category\<close> are empty when absent, and \<open>limit\<close> is 5 when
  absent. \<open>int_of\<close> is the built-in \<open>int\<close> on a string, \<open>None\<close> where it raises \<open>ValueError\<close>. The
  conversion of line 106 comes before the test of the query and is outside the \<open>try\<close>. The
  answers are the body \<open>{'results': []}\<close> for an empty query, the body with the results, the
  query and their number, and the error of status 500.
\<close>

datatype response =
  NoQuery
  | Results "search_result list" string nat
  | ServerError

definition search_route ::
  "(string \<Rightarrow> int option) \<Rightarrow>
   (store \<Rightarrow> vector option \<Rightarrow> string \<Rightarrow> string option \<Rightarrow> int \<Rightarrow> answer) \<Rightarrow>
   service \<Rightarrow> store \<Rightarrow> string \<Rightarrow> string \<Rightarrow> string option \<Rightarrow> exn + response" where
  "search_route int_of retrieval svc s q cat limit_arg =
     (case (case limit_arg of None \<Rightarrow> Some 5 | Some a \<Rightarrow> int_of a) of
        None \<Rightarrow> Inl ValueError
      | Some limit \<Rightarrow>
          if q = [] then Inr NoQuery
          else
            (case fst (search_documents retrieval svc s q (if cat = [] then None else Some cat)
                         limit) of
               Inl x \<Rightarrow> Inr ServerError
             | Inr results \<Rightarrow> Inr (Results results q (length results))))"

text \<open>
  A store with one active document and one chunk whose stored embedding is the zero
  vector, and a service whose model embeds every text as the first unit vector.
\<close>

definition zero_store :: store where
  "zero_store =
     \<lparr>documents = [txt_document],
      document_chunks =
        [\<lparr>chunk_id = ''c1'', document_id = ''d1'', chunk_index = 0,
          chunk_content = ''AAAA BBBB'', embedding = [0, 0], chunk_page_number = 1,
          chunk_start_char = 0, chunk_end_char = 9\<rparr>]\<rparr>"

definition unit_service :: service where
  "unit_service =
     \<lparr>chunk_size = 1000, chunk_overlap = 200,
      embedding_model = Some (\<lambda>texts. Inr (map (\<lambda>t. [1, 0]) texts))\<rparr>"

section \<open>Properties of the chunker\<close>

lemma content_make_chunk: "content (make_chunk text pages_info i cur) = join '' '' cur"
  by (simp add: make_chunk_def Let_def)

lemma words_length_snoc: "words_length (ws @ [w]) = words_length ws + int (length w) + 1"
  by (simp add: words_length_def)

lemma chunk_loop_windows:
  "map content (chunk_loop svc text pages_info chunks cur (words_length cur) i ws) =
   map content chunks @ map (join '' '') (spec_windows (chunk_size svc) (overlap_words svc) cur ws)"
proof (induction ws arbitrary: chunks cur i)
  case Nil
  show ?case by (simp add: content_make_chunk)
next
  case (Cons t ts)
  show ?case
  proof (cases "words_length cur + int (length t) + 1 > chunk_size svc \<and> cur \<noteq> []")
    case True
    then show ?thesis
      using Cons.IH [of "chunks @ [make_chunk text pages_info i cur]" "overlap_words svc cur @ [t]" "i + 1"]
      by (simp add: Let_def content_make_chunk words_length_snoc)
  next
    case False
    then show ?thesis
      using Cons.IH [of chunks "cur @ [t]" i]
      by (auto simp add: words_length_snoc)
  qed
qed

lemma suffix_trailing: "suffix (trailing k w) w"
  by (simp add: trailing_def suffix_drop)

lemma suffix_guarded_seed: "suffix (guarded_seed ov w) w"
  by (simp add: guarded_seed_def suffix_trailing)

lemma suffix_snoc_both: "suffix v seen \<Longrightarrow> suffix (v @ [t]) (seen @ [t])"
  by simp

lemma spec_windows_sublist:
  assumes seed: "\<And>w. suffix (seed w) w"
  shows "suffix w seen \<Longrightarrow> x \<in> set (spec_windows sz seed w ts) \<Longrightarrow> x \<noteq> [] \<and> sublist x (seen @ ts)"
proof (induction ts arbitrary: w seen)
  case Nil
  then have "x = w" "w \<noteq> []" by (auto split: if_splits)
  with Nil.prems(1) show ?case by (simp add: suffix_imp_sublist)
next
  case (Cons t ts)
  show ?case
  proof (cases "w \<noteq> [] \<and> words_length (w @ [t]) > sz")
    case True
    with Cons.prems(2) consider "x = w" | "x \<in> set (spec_windows sz seed (seed w @ [t]) ts)"
      by auto
    then show ?thesis
    proof cases
      case 1
      from Cons.prems(1) obtain zs where "seen = zs @ w" by (auto simp: suffix_def)
      then have "sublist w (seen @ t # ts)" by simp
      with 1 True show ?thesis by simp
    next
      case 2
      have "suffix (seed w) seen" using seed Cons.prems(1) by (rule suffix_order.trans)
      then have "suffix (seed w @ [t]) (seen @ [t])" by (rule suffix_snoc_both)
      from Cons.IH [OF this 2] show ?thesis by simp
    qed
  next
    case False
    with Cons.prems(2) have "x \<in> set (spec_windows sz seed (w @ [t]) ts)"
      by (simp split: if_splits)
    from Cons.IH [OF suffix_snoc_both [OF Cons.prems(1)] this] show ?thesis by simp
  qed
qed

lemma spec_windows_last:
  assumes seed: "\<And>w. suffix (seed w) w"
  shows "suffix w seen \<Longrightarrow> w \<noteq> [] \<or> ts \<noteq> [] \<Longrightarrow>
    spec_windows sz seed w ts \<noteq> [] \<and> last (spec_windows sz seed w ts) \<noteq> [] \<and>
    suffix (last (spec_windows sz seed w ts)) (seen @ ts)"
proof (induction ts arbitrary: w seen)
  case Nil
  then show ?case by simp
next
  case (Cons t ts)
  show ?case
  proof (cases "w \<noteq> [] \<and> words_length (w @ [t]) > sz")
    case True
    then have eq: "spec_windows sz seed w (t # ts) = w # spec_windows sz seed (seed w @ [t]) ts"
      by simp
    have "suffix (seed w) seen" using seed Cons.prems(1) by (rule suffix_order.trans)
    then have "suffix (seed w @ [t]) (seen @ [t])" by (rule suffix_snoc_both)
    from Cons.IH [OF this] have
      "spec_windows sz seed (seed w @ [t]) ts \<noteq> [] \<and>
       last (spec_windows sz seed (seed w @ [t]) ts) \<noteq> [] \<and>
       suffix (last (spec_windows sz seed (seed w @ [t]) ts)) ((seen @ [t]) @ ts)"
      by simp
    then show ?thesis unfolding eq by simp
  next
    case False
    then have eq: "spec_windows sz seed w (t # ts) = spec_windows sz seed (w @ [t]) ts"
      by auto
    from Cons.IH [OF suffix_snoc_both [OF Cons.prems(1)]] have
      "spec_windows sz seed (w @ [t]) ts \<noteq> [] \<and>
       last (spec_windows sz seed (w @ [t]) ts) \<noteq> [] \<and>
       suffix (last (spec_windows sz seed (w @ [t]) ts)) ((seen @ [t]) @ ts)"
      by simp
    then show ?thesis unfolding eq by simp
  qed
qed

lemma split_acc_tokens:
  "\<forall>c\<in>set w. \<not> isspace c \<Longrightarrow> t \<in> set (split_acc w cs) \<Longrightarrow> t \<noteq> [] \<and> (\<forall>c\<in>set t. \<not> isspace c)"
proof (induction cs arbitrary: w)
  case Nil
  then show ?case by (simp split: if_splits)
next
  case (Cons c cs)
  show ?case
  proof (cases "isspace c")
    case True
    show ?thesis
    proof (cases "w = []")
      case True
      with \<open>isspace c\<close> Cons.prems(2) have "t \<in> set (split_acc [] cs)" by simp
      then show ?thesis using Cons.IH [of "[]"] by simp
    next
      case False
      with \<open>isspace c\<close> Cons.prems(2) have "t = w \<or> t \<in> set (split_acc [] cs)" by simp
      then show ?thesis
      proof
        assume "t = w"
        with False Cons.prems(1) show ?thesis by simp
      next
        assume "t \<in> set (split_acc [] cs)"
        then show ?thesis using Cons.IH [of "[]"] by simp
      qed
    qed
  next
    case False
    with Cons.prems(2) have "t \<in> set (split_acc (w @ [c]) cs)" by simp
    moreover from False Cons.prems(1) have "\<forall>d\<in>set (w @ [c]). \<not> isspace d" by simp
    ultimately show ?thesis using Cons.IH [of "w @ [c]"] by blast
  qed
qed

lemma concat_split_acc: "concat (split_acc w cs) = w @ filter (\<lambda>c. \<not> isspace c) cs"
  by (induction cs arbitrary: w) simp_all

lemma spec_windows_Nil: "(spec_windows sz seed w ts = []) = (w = [] \<and> ts = [])"
  by (induction ts arbitrary: w) simp_all

lemma slice_from_neg: "0 < k \<Longrightarrow> slice_from xs (- int k) = trailing k xs"
  by (simp add: slice_from_def trailing_def nat_diff_distrib')

lemma overlap_words_guarded:
  assumes "0 < chunk_overlap svc" and "chunk_overlap svc mod 10 = 0"
  shows "overlap_words svc = guarded_seed (chunk_overlap svc)"
proof
  fix w
  from assms(2) have "10 dvd chunk_overlap svc" by (simp add: dvd_eq_mod_eq_0)
  then obtain q where q: "chunk_overlap svc = 10 * q" by (auto simp: dvd_def)
  with assms(1) have qpos: "0 < q" by simp
  define k where "k = nat q"
  from qpos have pos: "0 < k" and qk: "q = int k" unfolding k_def by simp_all
  have fl: "chunk_overlap svc div 10 = int k" using q qk by simp
  have "- chunk_overlap svc = 10 * (- q)" using q by simp
  then have "(- chunk_overlap svc) div 10 = - q" by simp
  then have neg: "(- chunk_overlap svc) div 10 = - int k" using qk by simp
  have "overlap_words svc w = (if int (length w) > int k then slice_from w (- int k) else [])"
    unfolding overlap_words_def fl neg ..
  also have "\<dots> = (if length w > k then trailing k w else [])"
    using pos by (simp add: slice_from_neg)
  also have "\<dots> = guarded_seed (chunk_overlap svc) w"
    unfolding guarded_seed_def fl by simp
  finally show "overlap_words svc w = guarded_seed (chunk_overlap svc) w" .
qed

lemma chunk_text_contents:
  "map content (chunk_text svc text pages_info) =
   map (join '' '') (spec_windows (chunk_size svc) (overlap_words svc) [] (str_split text))"
proof -
  have "words_length [] = 0" by (simp add: words_length_def)
  then show ?thesis
    using chunk_loop_windows [of svc "text" pages_info "[]" "[]" 0 "str_split text"]
    by (simp add: chunk_text_def)
qed

text \<open>
  C5 (amended). The chunker splits the text into its maximal runs of non-whitespace
  characters and accumulates these tokens into a window. When the window is not empty and
  would, with the next token and one separator per token, exceed \<open>chunk_size\<close>, it is
  closed: its tokens joined by single spaces are the next chunk, no token is ever split,
  and every window is a run of consecutive tokens of the text. For an overlap that is a
  positive multiple of ten, the next window is seeded with the trailing \<open>overlap div 10\<close>
  tokens of the closed window if that window holds more than \<open>overlap div 10\<close> tokens, and
  with no token otherwise. The last window ends with the last token of the text and is
  always emitted; a text without tokens yields no chunk.
\<close>

theorem chunk_text_windows:
  assumes "0 < chunk_overlap svc" and "chunk_overlap svc mod 10 = 0"
  shows "map content (chunk_text svc text pages_info) =
           map (join '' '')
             (spec_windows (chunk_size svc) (guarded_seed (chunk_overlap svc)) [] (str_split text))
       \<and> (\<forall>w \<in> set (spec_windows (chunk_size svc) (guarded_seed (chunk_overlap svc)) []
                      (str_split text)).
            w \<noteq> [] \<and> sublist w (str_split text))
       \<and> (\<forall>t \<in> set (str_split text). t \<noteq> [] \<and> (\<forall>c \<in> set t. \<not> isspace c))
       \<and> concat (str_split text) = filter (\<lambda>c. \<not> isspace c) text
       \<and> (str_split text \<noteq> [] \<longrightarrow>
            chunk_text svc text pages_info \<noteq> [] \<and>
            (\<exists>w. w \<noteq> [] \<and> suffix w (str_split text) \<and>
                 content (last (chunk_text svc text pages_info)) = join '' '' w))
       \<and> (str_split text = [] \<longrightarrow> chunk_text svc text pages_info = [])"
proof -
  let ?seed = "guarded_seed (chunk_overlap svc)"
  let ?ws = "spec_windows (chunk_size svc) ?seed [] (str_split text)"
  have seed: "\<And>w. suffix (?seed w) w" by (rule suffix_guarded_seed)
  have contents: "map content (chunk_text svc text pages_info) = map (join '' '') ?ws"
    using chunk_text_contents [of svc "text" pages_info] overlap_words_guarded [OF assms]
    by simp
  have runs: "\<forall>w \<in> set ?ws. w \<noteq> [] \<and> sublist w (str_split text)"
  proof
    fix w assume "w \<in> set ?ws"
    from spec_windows_sublist [of ?seed "[]" "[]", OF seed _ this]
    show "w \<noteq> [] \<and> sublist w (str_split text)" by simp
  qed
  have tokens: "\<forall>t \<in> set (str_split text). t \<noteq> [] \<and> (\<forall>c \<in> set t. \<not> isspace c)"
  proof
    fix t assume "t \<in> set (str_split text)"
    then have "t \<in> set (split_acc [] text)" by (simp add: str_split_def)
    from split_acc_tokens [OF _ this] show "t \<noteq> [] \<and> (\<forall>c \<in> set t. \<not> isspace c)" by simp
  qed
  have chars: "concat (str_split text) = filter (\<lambda>c. \<not> isspace c) text"
    by (simp add: str_split_def concat_split_acc)
  have final: "chunk_text svc text pages_info \<noteq> [] \<and>
      (\<exists>w. w \<noteq> [] \<and> suffix w (str_split text) \<and>
           content (last (chunk_text svc text pages_info)) = join '' '' w)"
    if ne: "str_split text \<noteq> []"
  proof -
    from spec_windows_last [of ?seed "[]" "[]" "str_split text" "chunk_size svc", OF seed] ne
    have l: "?ws \<noteq> []" "last ?ws \<noteq> []" "suffix (last ?ws) (str_split text)" by simp_all
    from contents l(1) have c: "chunk_text svc text pages_info \<noteq> []" by auto
    have "content (last (chunk_text svc text pages_info)) =
          last (map content (chunk_text svc text pages_info))"
      using c by (simp add: last_map)
    also have "\<dots> = join '' '' (last ?ws)"
      using contents l(1) by (simp add: last_map)
    finally show ?thesis using c l by blast
  qed
  have none: "chunk_text svc text pages_info = []" if "str_split text = []"
    using that by (simp add: chunk_text_def)
  from contents runs tokens chars final none show ?thesis by blast
qed

theorem chunk_text_windows_witness:
  "0 < chunk_overlap small_service \<and> chunk_overlap small_service mod 10 = 0 \<and>
   str_split ''AAAA BBBB CCCC DDDD'' = [''AAAA'', ''BBBB'', ''CCCC'', ''DDDD''] \<and>
   map content (chunk_text small_service ''AAAA BBBB CCCC DDDD'' []) =
     [''AAAA BBBB'', ''BBBB CCCC'', ''CCCC DDDD'']"
proof -
  have h1: "0 < chunk_overlap small_service" by (simp add: small_service_def)
  have h2: "chunk_overlap small_service mod 10 = 0" by (simp add: small_service_def)
  have sp: "str_split ''AAAA BBBB CCCC DDDD'' = [''AAAA'', ''BBBB'', ''CCCC'', ''DDDD'']"
    by (simp add: str_split_def isspace_def whitespace_def)
  have "spec_windows (chunk_size small_service) (guarded_seed (chunk_overlap small_service)) []
          [''AAAA'', ''BBBB'', ''CCCC'', ''DDDD''] =
        [[''AAAA'', ''BBBB''], [''BBBB'', ''CCCC''], [''CCCC'', ''DDDD'']]"
    by (simp add: small_service_def guarded_seed_def trailing_def words_length_def)
  then show ?thesis
    using chunk_text_windows [OF h1 h2, of "''AAAA BBBB CCCC DDDD''" "[]"] sp h1 h2
    by simp
qed

text \<open>
  The claim as worded, with the trailing \<open>overlap div 10\<close> tokens as the seed whatever the
  length of the closed window, fails for the default service on \<open>long_text\<close>: the first
  window closes with exactly twenty tokens and the chunker starts the next one empty.
\<close>

theorem chunk_text_seed_counterexample:
  "map content (chunk_text default_service long_text []) \<noteq>
   map (join '' '')
     (spec_windows (chunk_size default_service) (claimed_seed (chunk_overlap default_service)) []
        (str_split long_text))"
  by code_simp

text \<open>
  C4. The bounds \<open>0 \<le> start_char \<le> end_char \<le> length text\<close> fail as soon as two tokens of a
  chunk are separated by anything but one space: \<open>text.find\<close> does not find the joined
  tokens and its \<open>-1\<close> becomes the start of the chunk.
\<close>

theorem chunk_text_start_char_negative:
  "chunk_text default_service two_page_text [] =
     [\<lparr>index = 0, content = ''a b'', start_char = - 1, end_char = 2, page_number = 1\<rparr>]"
  by (simp add: chunk_text_def str_split_def isspace_def whitespace_def make_chunk_def
      str_find_def default_service_def two_page_text_def words_length_def)

lemma index_make_chunk: "index (make_chunk t p i cur) = i"
  by (simp add: make_chunk_def Let_def)

lemma chunk_loop_indices:
  "map index chunks = [0..<i] \<Longrightarrow>
   map index (chunk_loop svc t p chunks cur len i ws) =
     [0..<length (chunk_loop svc t p chunks cur len i ws)]"
proof (induction ws arbitrary: chunks cur len i)
  case Nil
  from Nil have "length chunks = i" by (metis length_map length_upt diff_zero)
  with Nil show ?case by (simp add: index_make_chunk)
next
  case (Cons w ws)
  from Cons.prems have len: "length chunks = i" by (metis length_map length_upt diff_zero)
  show ?case
  proof (cases "len + int (length w) + 1 > chunk_size svc \<and> cur \<noteq> []")
    case True
    have "map index (chunks @ [make_chunk t p i cur]) = [0..<i + 1]"
      using Cons.prems by (simp add: index_make_chunk)
    from Cons.IH [OF this] True show ?thesis by (simp add: Let_def)
  next
    case False
    from Cons.IH [OF Cons.prems] False show ?thesis by auto
  qed
qed

lemma chunk_text_indices:
  "map index (chunk_text svc t p) = [0..<length (chunk_text svc t p)]"
  unfolding chunk_text_def by (rule chunk_loop_indices) simp

section \<open>Properties of the embedder and of the extractor\<close>

lemma extract_pages_fail:
  "(\<exists>x. extract_pages pages n t ps = Inl x) = (Unreadable \<in> set pages)"
  by (induction pages n t ps rule: extract_pages.induct) (simp_all add: Let_def)

lemma extract_pages_text:
  "extract_pages pages n t ps = Inr (t', ps') \<Longrightarrow>
     t' = t @ page_texts pages \<and> length ps' = length ps + length pages"
  by (induction pages n t ps rule: extract_pages.induct) (simp_all add: Let_def)

lemma extract_pages_cases:
  "Unreadable \<notin> set pages \<Longrightarrow>
   \<exists>ps'. extract_pages pages n t ps = Inr (t @ page_texts pages, ps') \<and>
         length ps' = length ps + length pages"
  by (induction pages n t ps rule: extract_pages.induct) (simp_all add: Let_def)

text \<open>
  C7 (amended). \<open>generate_embeddings\<close> answers a batch of texts with one vector per text,
  in the order of the texts, provided the embedding model answers a batch it accepts with
  one vector per text: without a model, or when the one \<open>encode\<close> call on the batch raises,
  every position holds the empty vector; otherwise the batch of the model is returned as
  it is. The failure of a single text therefore empties the whole batch.
\<close>

theorem generate_embeddings_batch:
  assumes "\<And>encode vs. embedding_model svc = Some encode \<Longrightarrow> encode texts = Inr vs \<Longrightarrow>
             length vs = length texts"
  shows "length (generate_embeddings svc texts) = length texts \<and>
         (case embedding_model svc of
            None \<Rightarrow> generate_embeddings svc texts = replicate (length texts) []
          | Some encode \<Rightarrow>
              (case encode texts of
                 Inr vs \<Rightarrow> generate_embeddings svc texts = vs
               | Inl x \<Rightarrow> generate_embeddings svc texts = replicate (length texts) []))"
proof (cases "embedding_model svc")
  case None
  then show ?thesis by (simp add: generate_embeddings_def map_replicate_const)
next
  case (Some encode)
  show ?thesis
  proof (cases "encode texts")
    case (Inl x)
    with Some show ?thesis by (simp add: generate_embeddings_def map_replicate_const)
  next
    case (Inr vs)
    with Some assms [of encode vs] show ?thesis by (simp add: generate_embeddings_def)
  qed
qed

theorem generate_embeddings_batch_witness:
  "generate_embeddings picky_service [''good'', ''fine''] = [[1], [1]] \<and>
   length (generate_embeddings picky_service [''good'', ''fine'']) = 2"
proof -
  have enc: "embedding_model picky_service = Some (batch_encoder picky)"
    by (simp add: picky_service_def)
  have run: "batch_encoder picky [''good'', ''fine''] = Inr [[1], [1]]"
    by (simp add: batch_encoder_def picky_def)
  have "\<And>encode vs. embedding_model picky_service = Some encode \<Longrightarrow>
          encode [''good'', ''fine''] = Inr vs \<Longrightarrow> length vs = length [''good'', ''fine'']"
    using enc run by auto
  from generate_embeddings_batch [of picky_service "[''good'', ''fine'']", OF this]
  show ?thesis using enc run by simp
qed

text \<open>
  The claim as worded fails on a batch with one text that the model cannot embed: the
  text that could be embedded loses its vector as well.
\<close>

theorem generate_embeddings_counterexample:
  "batch_encoder picky [''good'', ''bad''] = Inl EncodeError \<and>
   generate_embeddings picky_service [''good'', ''bad''] = [[], []] \<and>
   embed_each picky [''good'', ''bad''] = [[1], []] \<and>
   generate_embeddings picky_service [''good'', ''bad''] \<noteq> embed_each picky [''good'', ''bad'']"
  by (simp add: generate_embeddings_def picky_service_def batch_encoder_def picky_def
      embed_each_def)

text \<open>
  C8 (amended). Extraction from a PDF fails exactly when the PDF library is missing, the
  file cannot be opened or parsed, or the text of some page cannot be extracted: one
  unreadable page aborts the extraction of the whole document. When every page can be
  read, the result is the text of the pages with a line feed after each and one entry of
  the page map per page, also when every page yields the empty text.
\<close>

theorem extract_text_from_pdf_outcome:
  "(\<exists>x. extract_text_from_pdf e path = Inl x) =
     (\<not> pdf_available e \<or>
      (case files e path of
         None \<Rightarrow> True
       | Some f \<Rightarrow> (case as_pdf f of None \<Rightarrow> True | Some pages \<Rightarrow> Unreadable \<in> set pages)))
   \<and> (\<forall>f pages. pdf_available e \<and> files e path = Some f \<and> as_pdf f = Some pages \<and>
         Unreadable \<notin> set pages \<longrightarrow>
         (\<exists>ps. extract_text_from_pdf e path = Inr (page_texts pages, ps) \<and>
               length ps = length pages))"
proof (intro conjI allI impI)
  show "(\<exists>x. extract_text_from_pdf e path = Inl x) =
     (\<not> pdf_available e \<or>
      (case files e path of
         None \<Rightarrow> True
       | Some f \<Rightarrow> (case as_pdf f of None \<Rightarrow> True | Some pages \<Rightarrow> Unreadable \<in> set pages)))"
    using extract_pages_fail [of _ 0 "[]" "[]"]
    by (simp add: extract_text_from_pdf_def split: option.splits)
next
  fix f pages
  assume a: "pdf_available e \<and> files e path = Some f \<and> as_pdf f = Some pages \<and>
             Unreadable \<notin> set pages"
  then have "extract_text_from_pdf e path = extract_pages pages 0 [] []"
    by (simp add: extract_text_from_pdf_def)
  with extract_pages_cases [of pages 0 "[]" "[]"] a
  show "\<exists>ps. extract_text_from_pdf e path = Inr (page_texts pages, ps) \<and> length ps = length pages"
    by simp
qed

theorem extract_text_from_pdf_outcome_witness:
  "pdf_available blank_pdf_env \<and>
   files blank_pdf_env ''f.pdf'' = Some \<lparr>as_text = None, as_pdf = Some [Page [], Page []]\<rparr> \<and>
   Unreadable \<notin> set [Page [], Page []] \<and>
   (\<exists>ps. extract_text_from_pdf blank_pdf_env ''f.pdf'' = Inr ([CHR 0x0A, CHR 0x0A], ps) \<and>
         length ps = 2)"
proof -
  have h: "pdf_available blank_pdf_env \<and>
     files blank_pdf_env ''f.pdf'' = Some \<lparr>as_text = None, as_pdf = Some [Page [], Page []]\<rparr> \<and>
     as_pdf \<lparr>as_text = None, as_pdf = Some [Page [], Page []]\<rparr> = Some [Page [], Page []] \<and>
     Unreadable \<notin> set [Page [], Page []]"
    by (simp add: blank_pdf_env_def one_file_def)
  from extract_text_from_pdf_outcome [of blank_pdf_env "''f.pdf''"] h
  have "\<exists>ps. extract_text_from_pdf blank_pdf_env ''f.pdf'' =
              Inr (page_texts [Page [], Page []], ps) \<and> length ps = length [Page [], Page []]"
    by blast
  with h show ?thesis by (simp add: numeral_2_eq_2)
qed

text \<open>
  The claim as worded fails on a file that opens and parses, whose first page reads \<open>a\<close>
  and whose second page cannot be read: the extraction is aborted, where skipping the
  page would have given the text of the first page.
\<close>

theorem extract_text_from_pdf_counterexample:
  "pdf_available torn_pdf_env \<and>
   files torn_pdf_env ''f.pdf'' = Some \<lparr>as_text = None, as_pdf = Some [Page ''a'', Unreadable]\<rparr> \<and>
   extract_text_from_pdf torn_pdf_env ''f.pdf'' = Inl ExtractionError \<and>
   extract_pages (map skip_unreadable [Page ''a'', Unreadable]) 0 [] [] =
     Inr (''a'' @ [CHR 0x0A, CHR 0x0A],
          [\<lparr>pg_page_number = 1, pg_text = ''a'', char_start = 0, char_end = 1\<rparr>,
           \<lparr>pg_page_number = 2, pg_text = [], char_start = 2, char_end = 2\<rparr>])"
  by (simp add: extract_text_from_pdf_def torn_pdf_env_def one_file_def)

section \<open>Properties of \<open>process_document\<close>\<close>

lemma load_global_mongo: "load_global ''mongo'' = Inl NameError"
  by (simp add: load_global_def module_globals_def)

lemma load_attr_from_dict: "load_attr document_attributes ''from_dict'' = Inl AttributeError"
  by (simp add: load_attr_def document_attributes_def mongo_model_attributes_def)


text \<open>
  C1. The claim: \<open>process_document\<close> returns a boolean for every document id and lets no
  exception cross its boundary. The code: every call raises \<open>NameError\<close> at line 200, for the
  module binds no name \<open>mongo\<close>, and nothing in the method catches it; the exception leaves
  the method, whatever the lines after line 203 would do, and the store with the indexed
  flags of its documents is as before the call.
\<close>

theorem process_document_raises:
  "process_document rest s did = (Inl NameError, s)"
  by (simp add: process_document_def load_global_mongo)

text \<open>
  C10. The claim: for a document id that is not in the store, \<open>process_document\<close> returns
  \<open>False\<close> and leaves the store unchanged. The code: for the id \<open>nope\<close>, which the store of
  the example does not hold, the call leaves the store unchanged but does not return: it
  raises \<open>NameError\<close> at line 200, before the test of lines 201 and 202.
\<close>

theorem process_document_unknown_raises:
  "find_one (documents txt_store) ''nope'' = None \<and>
   process_document rest txt_store ''nope'' = (Inl NameError, txt_store)"
  by (simp add: process_document_def load_global_mongo find_one_def txt_store_def
      txt_document_def)


section \<open>Properties of the retrieval\<close>

lemma strip_Nil: "strip [] = []"
  by (simp add: strip_def)

text \<open>
  C9. A query that is empty or consists of whitespace only is answered with the empty result
  list and nothing else happens: the query is not encoded and neither retrieval mode is
  entered. This holds for every store, every category, every limit, and whatever the
  lines after line 350 would answer.
\<close>

theorem search_documents_empty_query:
  assumes "strip query = []"
  shows "search_documents retrieval svc s query cat limit = (Inr [], [])"
  using assms by (simp add: search_documents_def)

theorem search_documents_empty_query_witness:
  "strip [CHR '' '', CHR 0x09, CHR '' ''] = [] \<and>
   search_documents (\<lambda>s v q c k. (Inr [], [SemanticSearch])) unit_service zero_store
     [CHR '' '', CHR 0x09, CHR '' ''] None 5 = (Inr [], []) \<and>
   search_documents (\<lambda>s v q c k. (Inr [], [TextSearch])) default_service txt_store
     [] (Some ''policy'') 3 = (Inr [], [])"
proof -
  have h: "strip [CHR '' '', CHR 0x09, CHR '' ''] = []"
    by (simp add: strip_def isspace_def whitespace_def)
  from search_documents_empty_query [OF h] search_documents_empty_query [OF strip_Nil] h
  show ?thesis by simp
qed

text \<open>
  The route answers an empty \<open>q\<close> itself and hands any other \<open>q\<close> to the service, once
  \<open>int\<close> has accepted the \<open>limit\<close> of the request; a \<open>limit\<close> that \<open>int\<close> refuses raises
  \<open>ValueError\<close> at line 106, whatever the query.
\<close>

lemma search_route_empty_query:
  assumes "strip q = []" and "limit_arg = None \<or> (\<exists>a k. limit_arg = Some a \<and> int_of a = Some k)"
  shows "search_route int_of retrieval svc s q cat limit_arg =
         Inr (if q = [] then NoQuery else Results [] q 0)"
  using assms by (auto simp add: search_route_def search_documents_def)

lemma search_route_limit:
  assumes "int_of a = None"
  shows "search_route int_of retrieval svc s q cat (Some a) = Inl ValueError"
  using assms by (simp add: search_route_def)


end
